theory Spec2Isabelle
  imports Main
begin

section \<open>The ChromeDriver service of \<^verbatim>\<open>selenium/webdriver/chrome/service.py\<close>\<close>

text \<open>
  The module holds one class, \<^verbatim>\<open>Service\<close>, with a constructor, \<^verbatim>\<open>start\<close>,
  the property \<^verbatim>\<open>service_url\<close> and \<^verbatim>\<open>stop\<close>. Everything the class does to
  the outside (asking for a free port, spawning the driver, probing the port, sleeping,
  the HTTP request, closing the pipes, killing and reaping the child) is written to a
  trace of events in the order of the calls. What the outside answers is read from a
  record of oracles, each of which sees the whole trace so far: this covers every
  behaviour of the operating system that depends on what happened before.
\<close>

subsection \<open>Exceptions, events and the host\<close>

text \<open>
  \<open>OSError n\<close> is an \<^verbatim>\<open>OSError\<close> whose \<^verbatim>\<open>errno\<close> is \<open>n\<close>;
  \<open>OtherException\<close> stands for an exception of any class that the module neither raises
  nor catches by name.
\<close>

datatype exn =
    WebDriverException string
  | OSError int
  | AttributeError string
  | OtherException string

text \<open>
  The attribute \<^verbatim>\<open>self.process\<close>: it does not exist until an assignment creates it
  (reading it then raises \<^verbatim>\<open>AttributeError\<close>), it may hold \<^verbatim>\<open>None\<close>, or a
  \<^verbatim>\<open>Popen\<close> object, named here by a number.
\<close>

datatype pyattr = AttrMissing | AttrNone | AttrProc nat

type_synonym environment = "(string \<times> string) list"

datatype event =
    FreePort int
  | Spawn "string list" environment "exn + nat"
  | Probe int bool
  | Sleep nat
  | HttpGet string "exn option"
  | CloseStdout nat "exn option"
  | CloseStderr nat "exn option"
  | Kill nat "exn option"
  | Wait nat "exn option"

type_synonym trace = "event list"

text \<open>
  The host: \<^verbatim>\<open>utils.free_port\<close> and \<^verbatim>\<open>utils.is_connectable\<close> (module
  \<^verbatim>\<open>selenium.webdriver.common.utils\<close>, whose source is not at hand; they are taken
  as parameters that return a port number and a truth value), \<^verbatim>\<open>os.environ\<close>,
  \<^verbatim>\<open>subprocess.Popen\<close> (an exception or a new process), \<^verbatim>\<open>urlopen\<close>, and the
  four calls on the process object. \<open>None\<close> means the call returned normally.
\<close>

record host =
  free_port :: "trace \<Rightarrow> int"
  is_connectable :: "trace \<Rightarrow> int \<Rightarrow> bool"
  environ :: environment
  popen :: "trace \<Rightarrow> string list \<Rightarrow> environment \<Rightarrow> exn + nat"
  urlopen :: "trace \<Rightarrow> string \<Rightarrow> exn option"
  stdout_close :: "trace \<Rightarrow> nat \<Rightarrow> exn option"
  stderr_close :: "trace \<Rightarrow> nat \<Rightarrow> exn option"
  kill :: "trace \<Rightarrow> nat \<Rightarrow> exn option"
  wait :: "trace \<Rightarrow> nat \<Rightarrow> exn option"

subsection \<open>Formatting and paths\<close>

text \<open>\<^verbatim>\<open>"%d" % n\<close> for a Python integer: decimal digits, a minus sign when negative.\<close>

definition digit_char :: "nat \<Rightarrow> char" where
  "digit_char d = ''0123456789'' ! d"

function str_nat :: "nat \<Rightarrow> string" where
  "str_nat n = (if n < 10 then [digit_char n] else str_nat (n div 10) @ [digit_char (n mod 10)])"
  by pat_completeness auto
termination
  by (relation "measure (\<lambda>n. n)") auto

declare str_nat.simps [simp del]

definition fmt_d :: "int \<Rightarrow> string" where
  "fmt_d i = (if i < 0 then CHR ''-'' # str_nat (nat (- i)) else str_nat (nat i))"

text \<open>
  \<^verbatim>\<open>os.path.basename\<close> as \<^verbatim>\<open>posixpath\<close> has it: what follows the last slash
  (\<^verbatim>\<open>p[p.rfind('/') + 1:]\<close>), the whole string when there is none.
\<close>

definition basename :: "string \<Rightarrow> string" where
  "basename p = rev (takeWhile (\<lambda>c. c \<noteq> CHR ''/'') (rev p))"

text \<open>\<^verbatim>\<open>errno.ENOENT\<close> and \<^verbatim>\<open>errno.EACCES\<close>.\<close>

definition ENOENT :: int where
  "ENOENT = 2"

definition EACCES :: int where
  "EACCES = 13"

definition docs_msg :: string where
  "docs_msg = ''Please see '' @ ''https://sites.google.com/a/chromium.org/chromedriver/home''"

definition quote :: string where
  "quote = [CHR 0x27]"

subsection \<open>The instance and its constructor\<close>

record service =
  port :: int
  path :: string
  service_args :: "string list"
  env :: "environment option"
  process :: pyattr

text \<open>
  \<^verbatim>\<open>__init__(self, executable_path, port=0, service_args=None, log_path=None, env=None)\<close>.
  An omitted \<^verbatim>\<open>port\<close> is \<open>None\<close> here and takes the default \<open>0\<close>. The constructor
  assigns \<^verbatim>\<open>port\<close>, \<^verbatim>\<open>path\<close>, \<^verbatim>\<open>service_args\<close> and \<^verbatim>\<open>env\<close> and nothing
  else, so \<^verbatim>\<open>process\<close> is left without a value. \<^verbatim>\<open>service_args or []\<close> keeps a
  non-empty list and replaces \<^verbatim>\<open>None\<close> and the empty list by a new empty list;
  \<^verbatim>\<open>if log_path\<close> holds for a non-empty string. (A non-empty list given by the
  caller is the very object the instance keeps, so the caller sees the appended entry
  too; the instance's own view is what is modelled.)
\<close>

definition Service_init ::
  "host \<Rightarrow> trace \<Rightarrow> string \<Rightarrow> int option \<Rightarrow> string list option \<Rightarrow> string option
     \<Rightarrow> environment option \<Rightarrow> service \<times> trace" where
  "Service_init h w executable_path port_arg service_args_arg log_path env_arg =
     (let port0 = (case port_arg of None \<Rightarrow> 0 | Some p \<Rightarrow> p);
          args0 = (case service_args_arg of None \<Rightarrow> [] | Some l \<Rightarrow> l);
          args1 = (case log_path of
                     None \<Rightarrow> args0
                   | Some lp \<Rightarrow> if lp \<noteq> [] then args0 @ [''--log-path='' @ lp] else args0)
      in if port0 = 0
         then (let p = free_port h w
               in (\<lparr>port = p, path = executable_path, service_args = args1,
                    env = env_arg, process = AttrMissing\<rparr>, w @ [FreePort p]))
         else (\<lparr>port = port0, path = executable_path, service_args = args1,
                 env = env_arg, process = AttrMissing\<rparr>, w))"

subsection \<open>start\<close>

text \<open>
  The readiness loop of \<^verbatim>\<open>start\<close>, with \<^verbatim>\<open>count\<close> as an argument:
  \<^verbatim>\<open>while not utils.is_connectable(self.port): count += 1; time.sleep(1);
  if count == 30: raise WebDriverException(...)\<close>. Started at a count above 29 and with
  a port that never answers, the loop would not end, so it is a partial function and
  \<open>None\<close> is "does not return".
\<close>

partial_function (option) start_poll ::
  "host \<Rightarrow> service \<Rightarrow> nat \<Rightarrow> trace \<Rightarrow> ((exn + unit) \<times> trace) option" where
  "start_poll h s count w =
     (let c = is_connectable h w (port s); w1 = w @ [Probe (port s) c] in
      if c then Some (Inr (), w1)
      else (let count1 = count + 1; w2 = w1 @ [Sleep 1] in
            if count1 = 30
            then Some (Inl (WebDriverException
                         (''Can not connect to the '' @ quote @ basename (path s) @ quote)), w2)
            else start_poll h s count1 w2))"

declare start_poll.simps [code]

text \<open>
  \<^verbatim>\<open>env = self.env or os.environ\<close>: \<^verbatim>\<open>None\<close> and the empty mapping are false.
\<close>

definition start_env :: "host \<Rightarrow> service \<Rightarrow> environment" where
  "start_env h s = (case env s of None \<Rightarrow> environ h | Some m \<Rightarrow> if m \<noteq> [] then m else environ h)"

definition start_argv :: "service \<Rightarrow> string list" where
  "start_argv s = [path s, ''--port='' @ fmt_d (port s)] @ service_args s"

text \<open>
  \<^verbatim>\<open>start\<close>: the assignment to \<^verbatim>\<open>self.process\<close> happens when \<^verbatim>\<open>Popen\<close>
  returns, before the readiness loop; an \<^verbatim>\<open>OSError\<close> of the spawn is translated by
  its \<^verbatim>\<open>errno\<close> or raised again, any other exception is not caught.
\<close>

definition start :: "host \<Rightarrow> service \<Rightarrow> trace \<Rightarrow> ((exn + unit) \<times> trace \<times> service) option" where
  "start h s w =
     (let e = start_env h s;
          argv = start_argv s;
          r = popen h w argv e;
          w1 = w @ [Spawn argv e r]
      in case r of
           Inl (OSError n) \<Rightarrow>
             if n = ENOENT
             then Some (Inl (WebDriverException
                           (quote @ basename (path s) @ quote
                              @ '' executable needs to be in PATH. '' @ docs_msg)), w1, s)
             else if n = EACCES
             then Some (Inl (WebDriverException
                           (quote @ basename (path s) @ quote
                              @ '' executable may have wrong permissions. '' @ docs_msg)), w1, s)
             else Some (Inl (OSError n), w1, s)
         | Inl x \<Rightarrow> Some (Inl x, w1, s)
         | Inr p \<Rightarrow>
             (let s1 = s\<lparr>process := AttrProc p\<rparr>
              in case start_poll h s1 0 w1 of
                   None \<Rightarrow> None
                 | Some (res, w2) \<Rightarrow> Some (res, w2, s1)))"

subsection \<open>service\_url\<close>

definition service_url :: "service \<Rightarrow> string" where
  "service_url s = ''http://localhost:'' @ fmt_d (port s)"

subsection \<open>stop\<close>

text \<open>
  The loop of \<^verbatim>\<open>stop\<close> that waits for the port to go dark:
  \<^verbatim>\<open>while utils.is_connectable(self.port): if count == 30: break; count += 1;
  time.sleep(1)\<close>.
\<close>

partial_function (option) stop_poll :: "host \<Rightarrow> service \<Rightarrow> nat \<Rightarrow> trace \<Rightarrow> trace option" where
  "stop_poll h s count w =
     (let c = is_connectable h w (port s); w1 = w @ [Probe (port s) c] in
      if c then (if count = 30 then Some w1
                 else stop_poll h s (count + 1) (w1 @ [Sleep 1]))
      else Some w1)"

declare stop_poll.simps [code]

text \<open>
  The body of the last \<^verbatim>\<open>try\<close> for a \<^verbatim>\<open>Popen\<close> object (which is true as a
  condition): the four calls in order, stopping at the first that raises.
\<close>

definition stop_cleanup :: "host \<Rightarrow> nat \<Rightarrow> trace \<Rightarrow> exn option \<times> trace" where
  "stop_cleanup h p w =
     (let r1 = stdout_close h w p; w1 = w @ [CloseStdout p r1] in
      case r1 of Some e \<Rightarrow> (Some e, w1) | None \<Rightarrow>
     (let r2 = stderr_close h w1 p; w2 = w1 @ [CloseStderr p r2] in
      case r2 of Some e \<Rightarrow> (Some e, w2) | None \<Rightarrow>
     (let r3 = kill h w2 p; w3 = w2 @ [Kill p r3] in
      case r3 of Some e \<Rightarrow> (Some e, w3) | None \<Rightarrow>
     (let r4 = wait h w3 p; w4 = w3 @ [Wait p r4] in
      (r4, w4)))))"

text \<open>
  \<^verbatim>\<open>stop\<close>: reading \<^verbatim>\<open>self.process\<close> comes first and raises when the attribute
  does not exist; \<^verbatim>\<open>urlopen\<close> is outside any \<^verbatim>\<open>try\<close>, so what it raises leaves
  \<^verbatim>\<open>stop\<close> at once; \<^verbatim>\<open>except OSError: pass\<close> swallows an \<^verbatim>\<open>OSError\<close> of
  the cleanup and nothing else. No statement of \<^verbatim>\<open>stop\<close> assigns to the instance.
  \<open>shutdown_url\<close> names the argument of \<^verbatim>\<open>urlopen\<close>,
  \<^verbatim>\<open>"http://127.0.0.1:%d/shutdown" % self.port\<close>.
\<close>

definition shutdown_url :: "service \<Rightarrow> string" where
  "shutdown_url s = ''http://127.0.0.1:'' @ fmt_d (port s) @ ''/shutdown''"

definition stop :: "host \<Rightarrow> service \<Rightarrow> trace \<Rightarrow> ((exn + unit) \<times> trace) option" where
  "stop h s w =
     (case process s of
        AttrMissing \<Rightarrow>
          Some (Inl (AttributeError
                  (quote @ ''Service'' @ quote @ '' object has no attribute ''
                     @ quote @ ''process'' @ quote)), w)
      | AttrNone \<Rightarrow> Some (Inr (), w)
      | AttrProc p \<Rightarrow>
          (let url = shutdown_url s;
               r = urlopen h w url;
               w1 = w @ [HttpGet url r]
           in case r of
                Some e \<Rightarrow> Some (Inl e, w1)
              | None \<Rightarrow>
                  (case stop_poll h s 0 w1 of
                     None \<Rightarrow> None
                   | Some w2 \<Rightarrow>
                       (case stop_cleanup h p w2 of
                          (None, w3) \<Rightarrow> Some (Inr (), w3)
                        | (Some (OSError n), w3) \<Rightarrow> Some (Inr (), w3)
                        | (Some e, w3) \<Rightarrow> Some (Inl e, w3)))))"

subsection \<open>A caller\<close>

text \<open>
  A caller holds one instance and calls its operations in any order, catching what they
  raise. \<open>run_ops\<close> gives the instance and the trace after the calls.
\<close>

datatype op = Start | Stop | ServiceUrl

definition step :: "host \<Rightarrow> op \<Rightarrow> service \<times> trace \<Rightarrow> (service \<times> trace) option" where
  "step h c st =
     (case st of (s, w) \<Rightarrow>
        (case c of
           Start \<Rightarrow> (case start h s w of None \<Rightarrow> None | Some (res, w', s') \<Rightarrow> Some (s', w'))
         | Stop \<Rightarrow> (case stop h s w of None \<Rightarrow> None | Some (res, w') \<Rightarrow> Some (s, w'))
         | ServiceUrl \<Rightarrow> (let u = service_url s in Some (s, w))))"

fun run_ops :: "host \<Rightarrow> op list \<Rightarrow> service \<times> trace \<Rightarrow> (service \<times> trace) option" where
  "run_ops h [] st = Some st"
| "run_ops h (c # cs) st = (case step h c st of None \<Rightarrow> None | Some st' \<Rightarrow> run_ops h cs st')"

text \<open>What the trace says: the calls of \<^verbatim>\<open>free_port\<close>, and the spawns with their arguments.\<close>

fun free_port_calls :: "trace \<Rightarrow> int list" where
  "free_port_calls [] = []"
| "free_port_calls (FreePort p # w) = p # free_port_calls w"
| "free_port_calls (e # w) = free_port_calls w"

fun spawn_argvs :: "trace \<Rightarrow> string list list" where
  "spawn_argvs [] = []"
| "spawn_argvs (Spawn argv e r # w) = argv # spawn_argvs w"
| "spawn_argvs (e # w) = spawn_argvs w"

fun spawn_envs :: "trace \<Rightarrow> environment list" where
  "spawn_envs [] = []"
| "spawn_envs (Spawn argv e r # w) = e # spawn_envs w"
| "spawn_envs (e # w) = spawn_envs w"

fun probes :: "trace \<Rightarrow> bool list" where
  "probes [] = []"
| "probes (Probe p c # w) = c # probes w"
| "probes (e # w) = probes w"

subsection \<open>Hosts for the concrete runs\<close>

text \<open>
  \<open>host_up\<close>: every spawn gives process 7, the port answers at once and keeps
  answering, every other call returns normally. \<open>host_down\<close> differs in one point: the
  port never answers. \<open>host_refuse\<close> is \<open>host_up\<close> with a driver that refuses the
  request to \<^verbatim>\<open>/shutdown\<close>. \<open>host_gone\<close> is \<open>host_up\<close> with a driver that
  exits on the request to \<^verbatim>\<open>/shutdown\<close>: once the trace holds such a request the
  port is dark and a further request is refused.
\<close>

definition host_up :: host where
  "host_up = \<lparr>free_port = (\<lambda>w. 40000), is_connectable = (\<lambda>w p. True),
     environ = [(''PATH'', ''/usr/bin'')], popen = (\<lambda>w a e. Inr 7),
     urlopen = (\<lambda>w u. None), stdout_close = (\<lambda>w p. None), stderr_close = (\<lambda>w p. None),
     kill = (\<lambda>w p. None), wait = (\<lambda>w p. None)\<rparr>"

definition host_down :: host where
  "host_down = host_up\<lparr>is_connectable := (\<lambda>w p. False)\<rparr>"

definition host_refuse :: host where
  "host_refuse = host_up\<lparr>urlopen := (\<lambda>w u. Some (OtherException ''URLError''))\<rparr>"

fun requested :: "trace \<Rightarrow> bool" where
  "requested [] = False"
| "requested (HttpGet u r # w) = True"
| "requested (e # w) = requested w"

definition host_gone :: host where
  "host_gone = host_up\<lparr>is_connectable := (\<lambda>w p. \<not> requested w),
     urlopen := (\<lambda>w u. if requested w then Some (OtherException ''URLError'') else None)\<rparr>"

section \<open>Properties\<close>

subsection \<open>The trace and the two loops\<close>

lemma free_port_calls_append: "free_port_calls (a @ b) = free_port_calls a @ free_port_calls b"
  by (induction a rule: free_port_calls.induct) simp_all

lemma spawn_argvs_append: "spawn_argvs (a @ b) = spawn_argvs a @ spawn_argvs b"
  by (induction a rule: spawn_argvs.induct) simp_all

lemma spawn_envs_append: "spawn_envs (a @ b) = spawn_envs a @ spawn_envs b"
  by (induction a rule: spawn_envs.induct) simp_all

lemma probes_append: "probes (a @ b) = probes a @ probes b"
  by (induction a rule: probes.induct) simp_all

lemma start_poll_total:
  "count < 30 \<Longrightarrow> \<exists>res w2. start_poll h s count w = Some (res, w2)
      \<and> free_port_calls w2 = free_port_calls w
      \<and> spawn_argvs w2 = spawn_argvs w \<and> spawn_envs w2 = spawn_envs w"
proof (induction "30 - count" arbitrary: count w)
  case 0
  then show ?case by simp
next
  case (Suc n)
  show ?case
  proof (cases "is_connectable h w (port s)")
    case True
    then show ?thesis
      by (subst start_poll.simps)
         (simp add: free_port_calls_append spawn_argvs_append spawn_envs_append)
  next
    case False
    show ?thesis
    proof (cases "count + 1 = 30")
      case True
      with False show ?thesis
        by (subst start_poll.simps)
           (simp add: free_port_calls_append spawn_argvs_append spawn_envs_append)
    next
      case ne: False
      from Suc.hyps(2) Suc.prems ne have a: "n = 30 - (count + 1)" and b: "count + 1 < 30"
        by simp_all
      from Suc.hyps(1) [OF a b, of "w @ [Probe (port s) False] @ [Sleep 1]"]
      obtain res w2 where
        "start_poll h s (count + 1) (w @ [Probe (port s) False] @ [Sleep 1]) = Some (res, w2)"
        "free_port_calls w2 = free_port_calls w" "spawn_argvs w2 = spawn_argvs w"
        "spawn_envs w2 = spawn_envs w"
        by (auto simp: free_port_calls_append spawn_argvs_append spawn_envs_append)
      with False ne show ?thesis
        by (subst start_poll.simps) simp
    qed
  qed
qed

lemma start_poll_first:
  "is_connectable h w (port s) \<Longrightarrow> start_poll h s count w = Some (Inr (), w @ [Probe (port s) True])"
  by (subst start_poll.simps) simp

lemma start_poll_never:
  assumes "\<forall>w'. \<not> is_connectable h w' (port s)" and "count < 30"
  shows "start_poll h s count w =
     Some (Inl (WebDriverException (''Can not connect to the '' @ quote @ basename (path s) @ quote)),
           w @ concat (replicate (30 - count) [Probe (port s) False, Sleep 1]))"
  using assms(2)
proof (induction "30 - count" arbitrary: count w)
  case 0
  then show ?case by simp
next
  case (Suc n)
  from assms(1) have nc: "\<not> is_connectable h w (port s)" by blast
  show ?case
  proof (cases "count + 1 = 30")
    case True
    then have "30 - count = Suc 0" by simp
    with nc True show ?thesis
      by (subst start_poll.simps) simp
  next
    case ne: False
    from Suc.hyps(2) Suc.prems ne have a: "n = 30 - (count + 1)" and b: "count + 1 < 30"
      by simp_all
    from Suc.prems have c: "30 - count = Suc (30 - (count + 1))" by simp
    from nc ne Suc.hyps(1) [OF a b, of "w @ [Probe (port s) False] @ [Sleep 1]"]
    show ?thesis
      by (subst start_poll.simps) (simp add: c del: replicate.simps, simp)
  qed
qed

lemma stop_poll_total:
  "count \<le> 30 \<Longrightarrow> \<exists>w2. stop_poll h s count w = Some w2
      \<and> free_port_calls w2 = free_port_calls w
      \<and> spawn_argvs w2 = spawn_argvs w \<and> spawn_envs w2 = spawn_envs w"
proof (induction "30 - count" arbitrary: count w)
  case 0
  then have "count = 30" by simp
  then show ?case
    by (subst stop_poll.simps)
       (simp add: Let_def free_port_calls_append spawn_argvs_append spawn_envs_append)
next
  case (Suc n)
  from Suc.hyps(2) Suc.prems have a: "n = 30 - (count + 1)" and b: "count + 1 \<le> 30" and ne: "count \<noteq> 30"
    by simp_all
  show ?case
  proof (cases "is_connectable h w (port s)")
    case True
    from Suc.hyps(1) [OF a b, of "w @ [Probe (port s) True] @ [Sleep 1]"]
    obtain w2 where
      "stop_poll h s (count + 1) (w @ [Probe (port s) True] @ [Sleep 1]) = Some w2"
      "free_port_calls w2 = free_port_calls w" "spawn_argvs w2 = spawn_argvs w"
      "spawn_envs w2 = spawn_envs w"
      by (auto simp: free_port_calls_append spawn_argvs_append spawn_envs_append)
    with ne True show ?thesis
      by (subst stop_poll.simps) simp
  next
    case False
    then show ?thesis
      by (subst stop_poll.simps)
         (simp add: free_port_calls_append spawn_argvs_append spawn_envs_append)
  qed
qed

subsection \<open>Every call returns; what a call leaves unchanged\<close>

lemma start_total:
  "\<exists>res w2 s2. start h s w = Some (res, w2, s2)
     \<and> port s2 = port s \<and> path s2 = path s \<and> service_args s2 = service_args s
     \<and> env s2 = env s
     \<and> free_port_calls w2 = free_port_calls w
     \<and> spawn_argvs w2 = spawn_argvs w @ [start_argv s]
     \<and> spawn_envs w2 = spawn_envs w @ [start_env h s]"
proof (cases "popen h w (start_argv s) (start_env h s)")
  case (Inl x)
  then show ?thesis
    by (cases x)
       (simp_all add: start_def Let_def free_port_calls_append spawn_argvs_append
          spawn_envs_append)
next
  case (Inr p)
  obtain res w2 where
    "start_poll h (s\<lparr>process := AttrProc p\<rparr>) 0
        (w @ [Spawn (start_argv s) (start_env h s) (Inr p)]) = Some (res, w2)"
    "free_port_calls w2 = free_port_calls (w @ [Spawn (start_argv s) (start_env h s) (Inr p)])"
    "spawn_argvs w2 = spawn_argvs (w @ [Spawn (start_argv s) (start_env h s) (Inr p)])"
    "spawn_envs w2 = spawn_envs (w @ [Spawn (start_argv s) (start_env h s) (Inr p)])"
    using start_poll_total [of 0 h "s\<lparr>process := AttrProc p\<rparr>"
        "w @ [Spawn (start_argv s) (start_env h s) (Inr p)]"]
    by auto
  with Inr show ?thesis
    by (simp add: start_def Let_def free_port_calls_append spawn_argvs_append
          spawn_envs_append)
qed

lemma stop_cleanup_frame:
  "stop_cleanup h p w = (r, w2) \<Longrightarrow>
     free_port_calls w2 = free_port_calls w \<and> spawn_argvs w2 = spawn_argvs w
     \<and> spawn_envs w2 = spawn_envs w"
  by (auto simp: stop_cleanup_def Let_def free_port_calls_append spawn_argvs_append
        spawn_envs_append split: option.splits)

lemma stop_total:
  "\<exists>res w2. stop h s w = Some (res, w2)
     \<and> free_port_calls w2 = free_port_calls w
     \<and> spawn_argvs w2 = spawn_argvs w \<and> spawn_envs w2 = spawn_envs w"
proof (cases "process s")
  case AttrMissing
  then show ?thesis by (simp add: stop_def)
next
  case AttrNone
  then show ?thesis by (simp add: stop_def)
next
  case (AttrProc p)
  define url where "url = shutdown_url s"
  show ?thesis
  proof (cases "urlopen h w url")
    case (Some e)
    with AttrProc show ?thesis
      by (simp add: stop_def Let_def url_def free_port_calls_append spawn_argvs_append
            spawn_envs_append)
  next
    case None
    obtain w2 where w2: "stop_poll h s 0 (w @ [HttpGet url None]) = Some w2"
      "free_port_calls w2 = free_port_calls (w @ [HttpGet url None])"
      "spawn_argvs w2 = spawn_argvs (w @ [HttpGet url None])"
      "spawn_envs w2 = spawn_envs (w @ [HttpGet url None])"
      using stop_poll_total [of 0 h s "w @ [HttpGet url None]"] by auto
    obtain r w3 where c: "stop_cleanup h p w2 = (r, w3)"
      by (cases "stop_cleanup h p w2")
    from stop_cleanup_frame [OF c] w2 have fr:
      "free_port_calls w3 = free_port_calls w" "spawn_argvs w3 = spawn_argvs w"
      "spawn_envs w3 = spawn_envs w"
      by (simp_all add: free_port_calls_append spawn_argvs_append spawn_envs_append)
    from AttrProc None w2(1) c fr show ?thesis
      by (simp add: stop_def Let_def url_def [symmetric] split: option.splits exn.splits)
  qed
qed

lemma run_ops_total:
  "\<exists>s2 w2. run_ops h cs (s, w) = Some (s2, w2)
     \<and> port s2 = port s \<and> path s2 = path s \<and> service_args s2 = service_args s
     \<and> env s2 = env s
     \<and> free_port_calls w2 = free_port_calls w
     \<and> spawn_argvs w2 = spawn_argvs w @ replicate (count_list cs Start) (start_argv s)
     \<and> spawn_envs w2 = spawn_envs w @ replicate (count_list cs Start) (start_env h s)"
proof (induction cs arbitrary: s w)
  case Nil
  show ?case by simp
next
  case (Cons c cs)
  show ?case
  proof (cases c)
    case Start
    obtain res w1 s1 where st: "start h s w = Some (res, w1, s1)"
      "port s1 = port s" "path s1 = path s" "service_args s1 = service_args s"
      "env s1 = env s" "free_port_calls w1 = free_port_calls w"
      "spawn_argvs w1 = spawn_argvs w @ [start_argv s]"
      "spawn_envs w1 = spawn_envs w @ [start_env h s]"
      using start_total [of h s w] by blast
    from st(2-5) have same: "start_argv s1 = start_argv s" "start_env h s1 = start_env h s"
      by (simp_all add: start_argv_def start_env_def)
    from Cons.IH [of s1 w1] st same Start show ?thesis
      by (auto simp: step_def replicate_append_same)
  next
    case Stop
    obtain res w1 where st: "stop h s w = Some (res, w1)"
      "free_port_calls w1 = free_port_calls w" "spawn_argvs w1 = spawn_argvs w"
      "spawn_envs w1 = spawn_envs w"
      using stop_total [of h s w] by blast
    from Cons.IH [of s w1] st Stop show ?thesis
      by (auto simp: step_def)
  next
    case ServiceUrl
    from Cons.IH [of s w] ServiceUrl show ?thesis
      by (auto simp: step_def)
  qed
qed

subsection \<open>The constructor; decimal numbers of the concrete runs\<close>

lemma Service_init_fields:
  "path (fst (Service_init h w ep pa sa lp ea)) = ep"
  "env (fst (Service_init h w ep pa sa lp ea)) = ea"
  "process (fst (Service_init h w ep pa sa lp ea)) = AttrMissing"
  "port (fst (Service_init h w ep pa sa lp ea)) =
     (if pa = None \<or> pa = Some 0 then free_port h w else the pa)"
  "service_args (fst (Service_init h w ep pa sa lp ea)) =
     (case sa of None \<Rightarrow> [] | Some l \<Rightarrow> l)
       @ (case lp of None \<Rightarrow> [] | Some p \<Rightarrow> if p \<noteq> [] then [''--log-path='' @ p] else [])"
  by (auto simp: Service_init_def Let_def split: option.splits)

lemma Service_init_trace:
  "snd (Service_init h w ep pa sa lp ea) =
     (if pa = None \<or> pa = Some 0 then w @ [FreePort (free_port h w)] else w)"
  by (auto simp: Service_init_def Let_def split: option.splits)

lemma str_nat_40000: "str_nat 40000 = ''40000''"
  by (simp add: str_nat.simps digit_char_def)

lemma str_nat_9515: "str_nat 9515 = ''9515''"
  by (simp add: str_nat.simps digit_char_def)

section \<open>The claims\<close>

text \<open>
  C1. The claim: \<^verbatim>\<open>stop\<close> on an instance on which \<^verbatim>\<open>start\<close> was never called
  returns at once without raising. The code: the constructor gives \<^verbatim>\<open>self.process\<close>
  no value, so the read in the guard \<^verbatim>\<open>if self.process is None\<close> raises
  \<^verbatim>\<open>AttributeError\<close>: on every freshly constructed instance, whatever the
  arguments and the host, \<^verbatim>\<open>stop\<close> ends with that exception and does nothing else.
\<close>

theorem stop_before_start_raises:
  "stop h (fst (Service_init h0 w0 executable_path port_arg service_args_arg log_path env_arg)) w
     = Some (Inl (AttributeError
                    (quote @ ''Service'' @ quote @ '' object has no attribute ''
                       @ quote @ ''process'' @ quote)), w)"
  by (simp add: stop_def Service_init_fields)

text \<open>
  C7. A port given as \<open>0\<close> or left out is resolved by one call of
  \<^verbatim>\<open>free_port\<close> in the constructor (the constructor adds that one event to the
  trace and stores the answer), and after any calls of \<^verbatim>\<open>start\<close>,
  \<^verbatim>\<open>stop\<close> and \<^verbatim>\<open>service_url\<close>, all of which return, the port is the same
  and the trace holds no further call of \<^verbatim>\<open>free_port\<close>.
\<close>

theorem port_resolved_once:
  assumes "port_arg = None \<or> port_arg = Some 0"
  shows "\<exists>s w1 s2 w2.
       Service_init h w executable_path port_arg service_args_arg log_path env_arg = (s, w1)
     \<and> port s = free_port h w \<and> w1 = w @ [FreePort (free_port h w)]
     \<and> run_ops h cs (s, w1) = Some (s2, w2)
     \<and> port s2 = port s \<and> free_port_calls w2 = free_port_calls w1"
proof -
  obtain s w1 where i: "Service_init h w executable_path port_arg service_args_arg log_path env_arg = (s, w1)"
    by (cases "Service_init h w executable_path port_arg service_args_arg log_path env_arg")
  from assms i have p: "port s = free_port h w" and t: "w1 = w @ [FreePort (free_port h w)]"
    using Service_init_fields(4) [of h w executable_path port_arg service_args_arg log_path env_arg]
      Service_init_trace [of h w executable_path port_arg service_args_arg log_path env_arg]
    by auto
  from run_ops_total [of h cs s w1] obtain s2 w2 where
    "run_ops h cs (s, w1) = Some (s2, w2)" "port s2 = port s"
    "free_port_calls w2 = free_port_calls w1"
    by blast
  with i p t show ?thesis by blast
qed

theorem port_resolved_once_witness:
  "\<exists>s w1 s2 w2.
       Service_init host_up [] ''chromedriver'' (Some 0) None None None = (s, w1)
     \<and> port s = 40000 \<and> w1 = [FreePort 40000]
     \<and> run_ops host_up [Start, ServiceUrl, Stop, Start] (s, w1) = Some (s2, w2)
     \<and> port s2 = port s \<and> free_port_calls w2 = free_port_calls w1"
  using port_resolved_once [of "Some 0" host_up "[]" "''chromedriver''" None None None
      "[Start, ServiceUrl, Stop, Start]"]
  by (simp add: host_up_def)

text \<open>
  C9. On every constructed instance and after any calls of \<^verbatim>\<open>start\<close>,
  \<^verbatim>\<open>stop\<close> and \<^verbatim>\<open>service_url\<close>, whether they succeeded or raised,
  \<^verbatim>\<open>service_url\<close> is the text \<^verbatim>\<open>http://localhost:\<close> followed by the decimal
  port that the constructor resolved: the port given, or the answer of \<^verbatim>\<open>free_port\<close>
  when the port was \<open>0\<close> or left out.
\<close>

theorem service_url_any_time:
  "\<exists>s2 w2. run_ops h cs (Service_init h w executable_path port_arg service_args_arg log_path env_arg)
               = Some (s2, w2)
     \<and> service_url s2 = ''http://localhost:''
          @ fmt_d (if port_arg = None \<or> port_arg = Some 0 then free_port h w else the port_arg)"
proof -
  obtain s w1 where i: "Service_init h w executable_path port_arg service_args_arg log_path env_arg = (s, w1)"
    by (cases "Service_init h w executable_path port_arg service_args_arg log_path env_arg")
  have p: "port s = (if port_arg = None \<or> port_arg = Some 0 then free_port h w else the port_arg)"
    using Service_init_fields(4) [of h w executable_path port_arg service_args_arg log_path env_arg] i
    by simp
  from run_ops_total [of h cs s w1] obtain s2 w2 where
    "run_ops h cs (s, w1) = Some (s2, w2)" "port s2 = port s"
    by blast
  with i p show ?thesis
    by (simp add: service_url_def)
qed

theorem service_url_any_time_witness:
  "\<exists>s2 w2. run_ops host_up [ServiceUrl, Start, ServiceUrl, Stop, ServiceUrl]
               (Service_init host_up [] ''/usr/bin/chromedriver'' None None None None) = Some (s2, w2)
     \<and> service_url s2 = ''http://localhost:40000''"
  using service_url_any_time [of host_up "[ServiceUrl, Start, ServiceUrl, Stop, ServiceUrl]" "[]"
      "''/usr/bin/chromedriver''" None None None None]
  by (simp add: host_up_def fmt_d_def str_nat_40000)

lemma probes_failed: "probes (concat (replicate n [Probe p False, Sleep k])) = replicate n False"
  by (induction n) simp_all

lemma start_spawned:
  assumes "popen h w (start_argv s) (start_env h s) = Inr p"
  shows "start h s w =
     (case start_poll h (s\<lparr>process := AttrProc p\<rparr>) 0
             (w @ [Spawn (start_argv s) (start_env h s) (Inr p)]) of
        None \<Rightarrow> None
      | Some (res, w2) \<Rightarrow> Some (res, w2, s\<lparr>process := AttrProc p\<rparr>))"
  using assms by (simp add: start_def Let_def)

text \<open>
  C3. When the spawn has given a process and the port never answers, \<^verbatim>\<open>start\<close>
  raises \<^verbatim>\<open>WebDriverException\<close> with the message
  \<^verbatim>\<open>Can not connect to the '<base name>'\<close> (the error the specification calls
  \<^verbatim>\<open>ServiceUnreachable\<close>) after exactly 30 probes of the port, each followed by a
  sleep of one second; when the port answers the first probe, \<^verbatim>\<open>start\<close> returns
  without error after exactly that one probe. In both cases the process stays stored in
  the instance.
\<close>

theorem start_readiness_attempts:
  "(popen h w (start_argv s) (start_env h s) = Inr p
      \<and> (\<forall>w'. \<not> is_connectable h w' (port s)) \<longrightarrow>
    (\<exists>w2. start h s w =
        Some (Inl (WebDriverException
                (''Can not connect to the '' @ quote @ basename (path s) @ quote)),
              w2, s\<lparr>process := AttrProc p\<rparr>)
      \<and> w2 = w @ [Spawn (start_argv s) (start_env h s) (Inr p)]
             @ concat (replicate 30 [Probe (port s) False, Sleep 1])
      \<and> probes w2 = probes w @ replicate 30 False))
   \<and> (popen h w (start_argv s) (start_env h s) = Inr p
      \<and> is_connectable h (w @ [Spawn (start_argv s) (start_env h s) (Inr p)]) (port s) \<longrightarrow>
    (\<exists>w2. start h s w = Some (Inr (), w2, s\<lparr>process := AttrProc p\<rparr>)
      \<and> w2 = w @ [Spawn (start_argv s) (start_env h s) (Inr p), Probe (port s) True]
      \<and> probes w2 = probes w @ [True]))"
proof (intro conjI impI)
  assume a: "popen h w (start_argv s) (start_env h s) = Inr p
      \<and> (\<forall>w'. \<not> is_connectable h w' (port s))"
  then have nc: "\<forall>w'. \<not> is_connectable h w' (port (s\<lparr>process := AttrProc p\<rparr>))"
    by simp
  from start_poll_never [OF nc, of 0 "w @ [Spawn (start_argv s) (start_env h s) (Inr p)]"]
  have "start_poll h (s\<lparr>process := AttrProc p\<rparr>) 0
          (w @ [Spawn (start_argv s) (start_env h s) (Inr p)]) =
        Some (Inl (WebDriverException
                (''Can not connect to the '' @ quote @ basename (path s) @ quote)),
              w @ [Spawn (start_argv s) (start_env h s) (Inr p)]
                @ concat (replicate 30 [Probe (port s) False, Sleep 1]))"
    by simp
  with a show "\<exists>w2. start h s w =
        Some (Inl (WebDriverException
                (''Can not connect to the '' @ quote @ basename (path s) @ quote)),
              w2, s\<lparr>process := AttrProc p\<rparr>)
      \<and> w2 = w @ [Spawn (start_argv s) (start_env h s) (Inr p)]
             @ concat (replicate 30 [Probe (port s) False, Sleep 1])
      \<and> probes w2 = probes w @ replicate 30 False"
    by (simp add: start_spawned probes_append probes_failed del: replicate.simps)
next
  assume a: "popen h w (start_argv s) (start_env h s) = Inr p
      \<and> is_connectable h (w @ [Spawn (start_argv s) (start_env h s) (Inr p)]) (port s)"
  then have c: "is_connectable h (w @ [Spawn (start_argv s) (start_env h s) (Inr p)])
                  (port (s\<lparr>process := AttrProc p\<rparr>))"
    by simp
  from start_poll_first [OF c, of 0] a
  show "\<exists>w2. start h s w = Some (Inr (), w2, s\<lparr>process := AttrProc p\<rparr>)
      \<and> w2 = w @ [Spawn (start_argv s) (start_env h s) (Inr p), Probe (port s) True]
      \<and> probes w2 = probes w @ [True]"
    by (simp add: start_spawned probes_append)
qed


theorem start_readiness_attempts_witness:
  "(\<exists>w2. start host_down
            \<lparr>port = 9515, path = ''/usr/bin/chromedriver'', service_args = [], env = None,
               process = AttrMissing\<rparr> [] =
          Some (Inl (WebDriverException (''Can not connect to the '' @ quote @ ''chromedriver'' @ quote)),
                w2,
                \<lparr>port = 9515, path = ''/usr/bin/chromedriver'', service_args = [], env = None,
                   process = AttrProc 7\<rparr>)
        \<and> probes w2 = replicate 30 False)
   \<and> (\<exists>w2. start host_up
            \<lparr>port = 9515, path = ''/usr/bin/chromedriver'', service_args = [], env = None,
               process = AttrMissing\<rparr> [] =
          Some (Inr (), w2,
                \<lparr>port = 9515, path = ''/usr/bin/chromedriver'', service_args = [], env = None,
                   process = AttrProc 7\<rparr>)
        \<and> probes w2 = [True])"
  using start_readiness_attempts [of host_down "[]"
      "\<lparr>port = 9515, path = ''/usr/bin/chromedriver'', service_args = [], env = None,
         process = AttrMissing\<rparr>" 7]
    start_readiness_attempts [of host_up "[]"
      "\<lparr>port = 9515, path = ''/usr/bin/chromedriver'', service_args = [], env = None,
         process = AttrMissing\<rparr>" 7]
  by (simp add: host_down_def host_up_def basename_def del: replicate.simps)

text \<open>
  C5. When \<^verbatim>\<open>Popen\<close> raises an \<^verbatim>\<open>OSError\<close> with \<^verbatim>\<open>errno\<close>
  \<^verbatim>\<open>ENOENT\<close>, \<^verbatim>\<open>start\<close> raises \<^verbatim>\<open>WebDriverException\<close> with the message
  \<^verbatim>\<open>'<base name>' executable needs to be in PATH. Please see <documentation>\<close>
  (the specification's \<^verbatim>\<open>ExecutableNotFound\<close>); with \<^verbatim>\<open>EACCES\<close> the message
  is \<^verbatim>\<open>'<base name>' executable may have wrong permissions. Please see
  <documentation>\<close> (the specification's \<^verbatim>\<open>ExecutablePermissionDenied\<close>); any
  other exception of the spawn leaves \<^verbatim>\<open>start\<close> as it is. In all three cases the
  spawn is the only event and the instance is unchanged. The two translated errors are
  of one Python class and differ by their message.
\<close>

theorem start_spawn_errors:
  "(popen h w (start_argv s) (start_env h s) = Inl (OSError ENOENT) \<longrightarrow>
      start h s w =
        Some (Inl (WebDriverException
                (quote @ basename (path s) @ quote @ '' executable needs to be in PATH. ''
                   @ ''Please see https://sites.google.com/a/chromium.org/chromedriver/home'')),
              w @ [Spawn (start_argv s) (start_env h s) (Inl (OSError ENOENT))], s))
   \<and> (popen h w (start_argv s) (start_env h s) = Inl (OSError EACCES) \<longrightarrow>
      start h s w =
        Some (Inl (WebDriverException
                (quote @ basename (path s) @ quote @ '' executable may have wrong permissions. ''
                   @ ''Please see https://sites.google.com/a/chromium.org/chromedriver/home'')),
              w @ [Spawn (start_argv s) (start_env h s) (Inl (OSError EACCES))], s))
   \<and> (popen h w (start_argv s) (start_env h s) = Inl e
        \<and> e \<noteq> OSError ENOENT \<and> e \<noteq> OSError EACCES \<longrightarrow>
      start h s w = Some (Inl e, w @ [Spawn (start_argv s) (start_env h s) (Inl e)], s))"
proof (intro conjI impI)
  assume "popen h w (start_argv s) (start_env h s) = Inl (OSError ENOENT)"
  then show "start h s w =
        Some (Inl (WebDriverException
                (quote @ basename (path s) @ quote @ '' executable needs to be in PATH. ''
                   @ ''Please see https://sites.google.com/a/chromium.org/chromedriver/home'')),
              w @ [Spawn (start_argv s) (start_env h s) (Inl (OSError ENOENT))], s)"
    by (simp add: start_def Let_def docs_msg_def)
next
  assume "popen h w (start_argv s) (start_env h s) = Inl (OSError EACCES)"
  then show "start h s w =
        Some (Inl (WebDriverException
                (quote @ basename (path s) @ quote @ '' executable may have wrong permissions. ''
                   @ ''Please see https://sites.google.com/a/chromium.org/chromedriver/home'')),
              w @ [Spawn (start_argv s) (start_env h s) (Inl (OSError EACCES))], s)"
    by (simp add: start_def Let_def docs_msg_def ENOENT_def EACCES_def)
next
  assume a: "popen h w (start_argv s) (start_env h s) = Inl e
        \<and> e \<noteq> OSError ENOENT \<and> e \<noteq> OSError EACCES"
  then show "start h s w = Some (Inl e, w @ [Spawn (start_argv s) (start_env h s) (Inl e)], s)"
    by (cases e) (auto simp: start_def Let_def)
qed

theorem start_spawn_errors_witness:
  "start (host_up\<lparr>popen := (\<lambda>w a e. Inl (OSError 2))\<rparr>)
      \<lparr>port = 9515, path = ''/opt/bin/chromedriver'', service_args = [], env = None,
         process = AttrMissing\<rparr> [] =
     Some (Inl (WebDriverException
             (quote @ ''chromedriver'' @ quote @ '' executable needs to be in PATH. ''
                @ ''Please see https://sites.google.com/a/chromium.org/chromedriver/home'')),
           [Spawn [''/opt/bin/chromedriver'', ''--port=9515''] [(''PATH'', ''/usr/bin'')]
              (Inl (OSError 2))],
           \<lparr>port = 9515, path = ''/opt/bin/chromedriver'', service_args = [], env = None,
              process = AttrMissing\<rparr>)
   \<and> start (host_up\<lparr>popen := (\<lambda>w a e. Inl (OSError 13))\<rparr>)
      \<lparr>port = 9515, path = ''/opt/bin/chromedriver'', service_args = [], env = None,
         process = AttrMissing\<rparr> [] =
     Some (Inl (WebDriverException
             (quote @ ''chromedriver'' @ quote @ '' executable may have wrong permissions. ''
                @ ''Please see https://sites.google.com/a/chromium.org/chromedriver/home'')),
           [Spawn [''/opt/bin/chromedriver'', ''--port=9515''] [(''PATH'', ''/usr/bin'')]
              (Inl (OSError 13))],
           \<lparr>port = 9515, path = ''/opt/bin/chromedriver'', service_args = [], env = None,
              process = AttrMissing\<rparr>)
   \<and> start (host_up\<lparr>popen := (\<lambda>w a e. Inl (OSError 8))\<rparr>)
      \<lparr>port = 9515, path = ''/opt/bin/chromedriver'', service_args = [], env = None,
         process = AttrMissing\<rparr> [] =
     Some (Inl (OSError 8),
           [Spawn [''/opt/bin/chromedriver'', ''--port=9515''] [(''PATH'', ''/usr/bin'')]
              (Inl (OSError 8))],
           \<lparr>port = 9515, path = ''/opt/bin/chromedriver'', service_args = [], env = None,
              process = AttrMissing\<rparr>)"
  using
    start_spawn_errors [of "host_up\<lparr>popen := (\<lambda>w a e. Inl (OSError 2))\<rparr>" "[]"
      "\<lparr>port = 9515, path = ''/opt/bin/chromedriver'', service_args = [], env = None,
         process = AttrMissing\<rparr>" "OSError 2"]
    start_spawn_errors [of "host_up\<lparr>popen := (\<lambda>w a e. Inl (OSError 13))\<rparr>" "[]"
      "\<lparr>port = 9515, path = ''/opt/bin/chromedriver'', service_args = [], env = None,
         process = AttrMissing\<rparr>" "OSError 13"]
    start_spawn_errors [of "host_up\<lparr>popen := (\<lambda>w a e. Inl (OSError 8))\<rparr>" "[]"
      "\<lparr>port = 9515, path = ''/opt/bin/chromedriver'', service_args = [], env = None,
         process = AttrMissing\<rparr>" "OSError 8"]
  by (simp add: host_up_def basename_def ENOENT_def EACCES_def start_argv_def start_env_def
        fmt_d_def str_nat_9515)

text \<open>
  C6. For an instance made by the constructor and any calls of \<^verbatim>\<open>start\<close>,
  \<^verbatim>\<open>stop\<close> and \<^verbatim>\<open>service_url\<close> after it, every spawn (one for each call of
  \<^verbatim>\<open>start\<close>) has as its argument vector the executable path, then
  \<^verbatim>\<open>--port=<port>\<close>, then the extra arguments given to the constructor in their
  order, then, when a log path was given (a non-empty string, which is what
  \<^verbatim>\<open>if log_path\<close> accepts), the one entry \<^verbatim>\<open>--log-path=<path>\<close>; the
  instance's list of arguments is the same after the calls as after construction.
\<close>

theorem argument_vector:
  "\<exists>s w1 s2 w2.
      Service_init h w executable_path port_arg service_args_arg log_path env_arg = (s, w1)
    \<and> run_ops h cs (s, w1) = Some (s2, w2)
    \<and> spawn_argvs w2 = spawn_argvs w @ replicate (count_list cs Start)
         ([executable_path, ''--port='' @ fmt_d (port s)]
            @ (case service_args_arg of None \<Rightarrow> [] | Some l \<Rightarrow> l)
            @ (case log_path of None \<Rightarrow> []
               | Some lp \<Rightarrow> if lp = [] then [] else [''--log-path='' @ lp]))
    \<and> service_args s2 = service_args s"
proof -
  obtain s w1 where i: "Service_init h w executable_path port_arg service_args_arg log_path env_arg = (s, w1)"
    by (cases "Service_init h w executable_path port_arg service_args_arg log_path env_arg")
  have a: "start_argv s = [executable_path, ''--port='' @ fmt_d (port s)]
            @ (case service_args_arg of None \<Rightarrow> [] | Some l \<Rightarrow> l)
            @ (case log_path of None \<Rightarrow> []
               | Some lp \<Rightarrow> if lp = [] then [] else [''--log-path='' @ lp])"
    using Service_init_fields(1,5) [of h w executable_path port_arg service_args_arg log_path env_arg] i
    by (auto simp: start_argv_def split: option.splits)
  have t: "spawn_argvs w1 = spawn_argvs w"
    using Service_init_trace [of h w executable_path port_arg service_args_arg log_path env_arg] i
    by (auto simp: spawn_argvs_append split: if_splits)
  from run_ops_total [of h cs s w1] obtain s2 w2 where
    "run_ops h cs (s, w1) = Some (s2, w2)" "service_args s2 = service_args s"
    "spawn_argvs w2 = spawn_argvs w1 @ replicate (count_list cs Start) (start_argv s)"
    by blast
  with i a t show ?thesis
    by simp
qed

theorem argument_vector_witness:
  "\<exists>s w1 s2 w2.
      Service_init host_up [] ''chromedriver'' (Some 9515) (Some [''--verbose''])
        (Some ''/tmp/cd.log'') None = (s, w1)
    \<and> run_ops host_up [ServiceUrl, Start, ServiceUrl, Stop, Start] (s, w1) = Some (s2, w2)
    \<and> spawn_argvs w2 =
         [[''chromedriver'', ''--port=9515'', ''--verbose'', ''--log-path=/tmp/cd.log''],
          [''chromedriver'', ''--port=9515'', ''--verbose'', ''--log-path=/tmp/cd.log'']]
    \<and> service_args s2 = [''--verbose'', ''--log-path=/tmp/cd.log'']"
  using argument_vector [of host_up "[]" "''chromedriver''" "Some 9515" "Some [''--verbose'']"
      "Some ''/tmp/cd.log''" None "[ServiceUrl, Start, ServiceUrl, Stop, Start]"]
  by (simp add: host_up_def Service_init_def fmt_d_def str_nat_9515 numeral_2_eq_2)

text \<open>
  C10. On an instance constructed with no environment or with an empty mapping,
  \<^verbatim>\<open>start\<close> (which always returns) spawns the driver with \<^verbatim>\<open>os.environ\<close>;
  constructed with a non-empty mapping, it spawns the driver with that mapping.
\<close>

theorem start_environment:
  "\<exists>res w2 s2.
      start h (fst (Service_init h0 w0 executable_path port_arg service_args_arg log_path env_arg)) w
        = Some (res, w2, s2)
    \<and> spawn_envs w2 = spawn_envs w
         @ [if env_arg = None \<or> env_arg = Some [] then environ h else the env_arg]"
proof -
  let ?s = "fst (Service_init h0 w0 executable_path port_arg service_args_arg log_path env_arg)"
  have "start_env h ?s = (if env_arg = None \<or> env_arg = Some [] then environ h else the env_arg)"
    by (auto simp: start_env_def Service_init_fields split: option.splits)
  with start_total [of h ?s w] show ?thesis
    by auto
qed

theorem start_environment_witness:
  "(\<exists>res w2 s2.
      start host_up (fst (Service_init host_up [] ''chromedriver'' (Some 9515) None None (Some []))) []
        = Some (res, w2, s2)
    \<and> spawn_envs w2 = [[(''PATH'', ''/usr/bin'')]])
   \<and> (\<exists>res w2 s2.
      start host_up (fst (Service_init host_up [] ''chromedriver'' (Some 9515) None None None)) []
        = Some (res, w2, s2)
    \<and> spawn_envs w2 = [[(''PATH'', ''/usr/bin'')]])
   \<and> (\<exists>res w2 s2.
      start host_up (fst (Service_init host_up [] ''chromedriver'' (Some 9515) None None
                            (Some [(''DISPLAY'', '':1'')]))) []
        = Some (res, w2, s2)
    \<and> spawn_envs w2 = [[(''DISPLAY'', '':1'')]])"
  using
    start_environment [of host_up host_up "[]" "''chromedriver''" "Some 9515" None None
      "Some []" "[]"]
    start_environment [of host_up host_up "[]" "''chromedriver''" "Some 9515" None None
      None "[]"]
    start_environment [of host_up host_up "[]" "''chromedriver''" "Some 9515" None None
      "Some [(''DISPLAY'', '':1'')]" "[]"]
  by (simp add: host_up_def)

text \<open>
  C2. The claim: after a \<^verbatim>\<open>start\<close> that succeeded, \<^verbatim>\<open>stop\<close> closes the
  two streams of the process, kills it and waits for it, also when the request to
  \<^verbatim>\<open>/shutdown\<close> raises. The code: \<^verbatim>\<open>urlopen\<close> is called outside any
  \<^verbatim>\<open>try\<close>, so what it raises leaves \<^verbatim>\<open>stop\<close> before the cleanup that the
  docstring (\<^verbatim>\<open>cleans up the process\<close>) and the comment
  (\<^verbatim>\<open>properly die in case\<close>) announce. On a host whose driver refuses the request,
  \<^verbatim>\<open>start\<close> succeeds, \<^verbatim>\<open>stop\<close> raises what \<^verbatim>\<open>urlopen\<close> raised, and the
  whole trace is the spawn, one probe and the request: no stream is closed, no kill is
  sent, nothing is waited for.
\<close>

theorem stop_shutdown_error_skips_cleanup:
  "start host_refuse \<lparr>port = 9515, path = ''chromedriver'', service_args = [], env = None, process = AttrMissing\<rparr> [] = Some (Inr (), [Spawn [''chromedriver'', ''--port=9515''] [(''PATH'', ''/usr/bin'')] (Inr 7), Probe 9515 True], \<lparr>port = 9515, path = ''chromedriver'', service_args = [], env = None, process = AttrProc 7\<rparr>)
   \<and> stop host_refuse \<lparr>port = 9515, path = ''chromedriver'', service_args = [], env = None, process = AttrProc 7\<rparr> [Spawn [''chromedriver'', ''--port=9515''] [(''PATH'', ''/usr/bin'')] (Inr 7), Probe 9515 True] =
          Some (Inl (OtherException ''URLError''),
                [Spawn [''chromedriver'', ''--port=9515''] [(''PATH'', ''/usr/bin'')] (Inr 7), Probe 9515 True, HttpGet ''http://127.0.0.1:9515/shutdown'' (Some (OtherException ''URLError''))])"
  by (simp add: start_def start_poll.simps stop_def host_refuse_def host_up_def start_argv_def
        start_env_def shutdown_url_def fmt_d_def str_nat_9515)

text \<open>
  C8. The claim: a second \<^verbatim>\<open>stop\<close> after a \<^verbatim>\<open>stop\<close> that completed succeeds
  without error. The code: \<^verbatim>\<open>stop\<close> never assigns \<^verbatim>\<open>None\<close> to
  \<^verbatim>\<open>self.process\<close>, so the guard does not see that the driver is dead and the second
  call sends the request to \<^verbatim>\<open>/shutdown\<close> again. On a host whose driver exits on
  the first request, \<^verbatim>\<open>start\<close> succeeds, the first \<^verbatim>\<open>stop\<close> runs to the end
  (request, one probe of the dark port, two closes, kill, wait), and the second
  \<^verbatim>\<open>stop\<close> raises the error of the refused request.
\<close>

theorem second_stop_raises:
  "start host_gone \<lparr>port = 9515, path = ''chromedriver'', service_args = [], env = None, process = AttrMissing\<rparr> [] = Some (Inr (), [Spawn [''chromedriver'', ''--port=9515''] [(''PATH'', ''/usr/bin'')] (Inr 7), Probe 9515 True], \<lparr>port = 9515, path = ''chromedriver'', service_args = [], env = None, process = AttrProc 7\<rparr>)
   \<and> stop host_gone \<lparr>port = 9515, path = ''chromedriver'', service_args = [], env = None, process = AttrProc 7\<rparr> [Spawn [''chromedriver'', ''--port=9515''] [(''PATH'', ''/usr/bin'')] (Inr 7), Probe 9515 True] =
         Some (Inr (),
               [Spawn [''chromedriver'', ''--port=9515''] [(''PATH'', ''/usr/bin'')] (Inr 7), Probe 9515 True, HttpGet ''http://127.0.0.1:9515/shutdown'' None, Probe 9515 False,
                CloseStdout 7 None, CloseStderr 7 None, Kill 7 None, Wait 7 None])
   \<and> stop host_gone \<lparr>port = 9515, path = ''chromedriver'', service_args = [], env = None, process = AttrProc 7\<rparr>
         [Spawn [''chromedriver'', ''--port=9515''] [(''PATH'', ''/usr/bin'')] (Inr 7), Probe 9515 True, HttpGet ''http://127.0.0.1:9515/shutdown'' None, Probe 9515 False,
          CloseStdout 7 None, CloseStderr 7 None, Kill 7 None, Wait 7 None] =
         Some (Inl (OtherException ''URLError''),
               [Spawn [''chromedriver'', ''--port=9515''] [(''PATH'', ''/usr/bin'')] (Inr 7), Probe 9515 True, HttpGet ''http://127.0.0.1:9515/shutdown'' None, Probe 9515 False,
                CloseStdout 7 None, CloseStderr 7 None, Kill 7 None, Wait 7 None,
                HttpGet ''http://127.0.0.1:9515/shutdown'' (Some (OtherException ''URLError''))])"
  by (simp add: start_def start_poll.simps stop_def stop_poll.simps stop_cleanup_def
        host_gone_def host_up_def start_argv_def start_env_def shutdown_url_def fmt_d_def
        str_nat_9515)

lemma start_process:
  "\<exists>res w2 s2. start h s w = Some (res, w2, s2)
     \<and> process s2 = (case popen h w (start_argv s) (start_env h s) of
                        Inl e \<Rightarrow> process s | Inr p \<Rightarrow> AttrProc p)"
proof (cases "popen h w (start_argv s) (start_env h s)")
  case (Inl x)
  then show ?thesis
    by (cases x) (simp_all add: start_def Let_def)
next
  case (Inr p)
  from start_poll_total [of 0 h "s\<lparr>process := AttrProc p\<rparr>"
      "w @ [Spawn (start_argv s) (start_env h s) (Inr p)]"]
  obtain res w2 where
    "start_poll h (s\<lparr>process := AttrProc p\<rparr>) 0
        (w @ [Spawn (start_argv s) (start_env h s) (Inr p)]) = Some (res, w2)"
    by auto
  with Inr show ?thesis
    by (simp add: start_spawned)
qed

lemma start_unreachable_process:
  assumes "popen h w (start_argv s) (start_env h s) = Inr p"
    and "\<forall>w'. \<not> is_connectable h w' (port s)"
  shows "\<exists>e w2 s2. start h s w = Some (Inl e, w2, s2) \<and> process s2 = AttrProc p"
proof -
  from assms(2) have nc: "\<forall>w'. \<not> is_connectable h w' (port (s\<lparr>process := AttrProc p\<rparr>))"
    by simp
  from start_poll_never [OF nc, of 0 "w @ [Spawn (start_argv s) (start_env h s) (Inr p)]"] assms(1)
  show ?thesis
    by (simp add: start_spawned del: replicate.simps)
qed

text \<open>
  C4, as the code has it. The process handle is absent on a freshly constructed instance.
  \<^verbatim>\<open>start\<close> always returns or raises, and afterwards the handle is the new process
  when the spawn gave one and is what it was before when the spawn raised. So a
  \<^verbatim>\<open>start\<close> whose spawn succeeded leaves the handle present whether the readiness
  loop then succeeds or fails: with a port that never answers, \<^verbatim>\<open>start\<close> raises and
  the handle is present.
\<close>

theorem process_handle_set_by_spawn:
  "process (fst (Service_init h0 w0 executable_path port_arg service_args_arg log_path env_arg))
     = AttrMissing
   \<and> (\<exists>res w2 s2. start h s w = Some (res, w2, s2)
         \<and> process s2 = (case popen h w (start_argv s) (start_env h s) of
                            Inl e \<Rightarrow> process s | Inr p \<Rightarrow> AttrProc p))
   \<and> (popen h w (start_argv s) (start_env h s) = Inr p
         \<and> (\<forall>w'. \<not> is_connectable h w' (port s)) \<longrightarrow>
       (\<exists>e w2 s2. start h s w = Some (Inl e, w2, s2) \<and> process s2 = AttrProc p))"
  using start_process [of h s w] start_unreachable_process [of h w s p]
  by (simp add: Service_init_fields)

theorem process_handle_set_by_spawn_witness:
  "process (fst (Service_init host_down [] ''chromedriver'' (Some 9515) None None None))
     = AttrMissing
   \<and> (\<exists>res w2 s2. start host_down \<lparr>port = 9515, path = ''chromedriver'', service_args = [], env = None, process = AttrMissing\<rparr> [] = Some (res, w2, s2) \<and> process s2 = AttrProc 7)
   \<and> (\<exists>e w2 s2. start host_down \<lparr>port = 9515, path = ''chromedriver'', service_args = [], env = None, process = AttrMissing\<rparr> [] = Some (Inl e, w2, s2) \<and> process s2 = AttrProc 7)"
  using process_handle_set_by_spawn [of host_down "[]" "''chromedriver''" "Some 9515" None None
      None host_down "\<lparr>port = 9515, path = ''chromedriver'', service_args = [], env = None, process = AttrMissing\<rparr>" "[]" 7]
  by (simp add: host_down_def host_up_def)

text \<open>
  C4 as stated (the handle is absent after a \<^verbatim>\<open>start\<close> that fails readiness
  polling) fails on a host whose port never answers: \<^verbatim>\<open>start\<close> raises the
  readiness error and the instance holds process 7.
\<close>

theorem handle_after_failed_start_counterexample:
  "map_option fst (start host_down \<lparr>port = 9515, path = ''chromedriver'', service_args = [], env = None, process = AttrMissing\<rparr> []) =
     Some (Inl (WebDriverException (''Can not connect to the '' @ quote @ ''chromedriver'' @ quote)))
   \<and> map_option (process \<circ> snd \<circ> snd) (start host_down \<lparr>port = 9515, path = ''chromedriver'', service_args = [], env = None, process = AttrMissing\<rparr> []) = Some (AttrProc 7)"
proof -
  have nc: "\<forall>w'. \<not> is_connectable host_down w'
      (port (\<lparr>port = 9515, path = ''chromedriver'', service_args = [], env = None, process = AttrMissing\<rparr>\<lparr>process := AttrProc 7\<rparr>))"
    by (simp add: host_down_def)
  have sp: "popen host_down [] (start_argv \<lparr>port = 9515, path = ''chromedriver'', service_args = [], env = None, process = AttrMissing\<rparr>) (start_env host_down \<lparr>port = 9515, path = ''chromedriver'', service_args = [], env = None, process = AttrMissing\<rparr>) = Inr 7"
    by (simp add: host_down_def host_up_def)
  from start_poll_never [OF nc, of 0] sp show ?thesis
    by (simp add: start_spawned basename_def del: replicate.simps)
qed

end
